theory Spec2Isabelle
  imports Complex_Main
begin

section \<open>Data model\<close>

text \<open>
  The plugin reads an RGBA pixel buffer from the host and looks for the largest rectangle
  of opaque pixels. Samples come from a \<open>Uint8Array\<close>, a \<open>Uint16Array\<close> or a
  \<open>Float32Array\<close>; they are modelled as real numbers. JavaScript numbers that hold
  coordinates, indices and areas are modelled as \<open>int\<close> or \<open>nat\<close>; the elements of an
  \<open>Int32Array\<close> are \<open>int\<close>s and every store into one goes through \<open>toInt32\<close>.
\<close>

record bounds =
  rect_left :: int
  rect_top :: int
  rect_right :: int
  rect_bottom :: int

record imageData =
  components :: int
  componentSize :: int
  getData :: "real list option"

record imageObj =
  imageData :: "imageData option"
  sourceBounds :: "bounds option"

datatype event = Dispose | Crop bounds

datatype completion = Returned | RangeError

record best =
  bestArea :: int
  bestL :: int
  bestR :: int
  bestT :: int
  bestB :: int

section \<open>main.js\<close>

text \<open>\<open>const INSET = 1\<close>\<close>

definition INSET :: int where
  "INSET = 1"

text \<open>\<open>alphaThreshold(componentSize)\<close>, main.js lines 13-18.\<close>

definition alphaThreshold :: "int \<Rightarrow> real" where
  "alphaThreshold csize =
     (if csize = 16 then 256
      else if csize = 32 then 0.002
      else 2)"

text \<open>
  \<open>data[k]\<close> on a typed array: \<open>undefined\<close> when \<open>k\<close> is out of range, and the
  comparison \<open>undefined >= THR\<close> is false.
\<close>

definition sample_at :: "real list \<Rightarrow> nat \<Rightarrow> real option" where
  "sample_at data k = (if k < length data then Some (data ! k) else None)"

definition ge_thr :: "real option \<Rightarrow> real \<Rightarrow> bool" where
  "ge_thr a THR = (case a of None \<Rightarrow> False | Some v \<Rightarrow> THR \<le> v)"

text \<open>\<open>data[row + x * 4 + 3] >= THR\<close> with \<open>row = y * w * 4\<close>.\<close>

definition opaque :: "real list \<Rightarrow> nat \<Rightarrow> real \<Rightarrow> nat \<Rightarrow> nat \<Rightarrow> bool" where
  "opaque data w THR x y = ge_thr (sample_at data (y * w * 4 + x * 4 + 3)) THR"

text \<open>The conversion applied by a store into an \<open>Int32Array\<close>.\<close>

definition toInt32 :: "int \<Rightarrow> int" where
  "toInt32 v = (v + 2 ^ 31) mod 2 ^ 32 - 2 ^ 31"

text \<open>The histogram update of one row, main.js lines 101-104.\<close>

definition update_heights :: "real list \<Rightarrow> nat \<Rightarrow> real \<Rightarrow> nat \<Rightarrow> int list \<Rightarrow> int list" where
  "update_heights data w THR y heights =
     fold (\<lambda>x hs. hs[x := (if opaque data w THR x y then toInt32 (hs ! x + 1) else 0)])
       [0..<w] heights"

text \<open>
  The \<open>while\<close> loop of main.js lines 111-128. The stack is a list whose head is the
  top of the JavaScript array; \<open>i\<close> is the column being scanned and \<open>y\<close> the row.
\<close>

fun pop_loop :: "int list \<Rightarrow> nat \<Rightarrow> nat \<Rightarrow> int \<Rightarrow> nat list \<Rightarrow> best \<Rightarrow> nat list \<times> best" where
  "pop_loop heights y i curH [] b = ([], b)"
| "pop_loop heights y i curH (topIdx # stack) b =
     (if curH < heights ! topIdx then
        (let height = heights ! topIdx in
         if height \<le> 0 then pop_loop heights y i curH stack b
         else
           (let right = int i;
                left = (case stack of [] \<Rightarrow> 0 | s # _ \<Rightarrow> int s + 1);
                widthRect = right - left;
                area = height * widthRect
            in pop_loop heights y i curH stack
                 (if area > bestArea b
                  then \<lparr>bestArea = area, bestL = left, bestR = right,
                        bestT = int y + 1 - height, bestB = int y + 1\<rparr>
                  else b)))
      else (topIdx # stack, b))"

text \<open>One iteration of \<open>for (let i = 0; i <= w; i++)\<close>, main.js lines 108-131.\<close>

definition col_step :: "int list \<Rightarrow> nat \<Rightarrow> nat \<Rightarrow> nat \<Rightarrow> nat list \<times> best \<Rightarrow> nat list \<times> best" where
  "col_step heights w y i sb =
     (let curH = (if i = w then 0 else heights ! i);
          (stack', b') = pop_loop heights y i curH (fst sb) (snd sb)
      in (i # stack', b'))"

definition largest_in_histogram :: "int list \<Rightarrow> nat \<Rightarrow> nat \<Rightarrow> best \<Rightarrow> best" where
  "largest_in_histogram heights w y b =
     snd (fold (col_step heights w y) [0..<Suc w] ([], b))"

text \<open>One iteration of \<open>for (let y = 0; y < h; y++)\<close>, main.js lines 97-132.\<close>

definition row_step :: "real list \<Rightarrow> nat \<Rightarrow> real \<Rightarrow> nat \<Rightarrow> int list \<times> best \<Rightarrow> int list \<times> best" where
  "row_step data w THR y hb =
     (let heights = update_heights data w THR y (fst hb)
      in (heights, largest_in_histogram heights w y (snd hb)))"

definition init_best :: best where
  "init_best = \<lparr>bestArea = 0, bestL = 0, bestR = 0, bestT = 0, bestB = 0\<rparr>"

definition scan_rows :: "real list \<Rightarrow> nat \<Rightarrow> nat \<Rightarrow> real \<Rightarrow> int list \<times> best" where
  "scan_rows data w h THR = fold (row_step data w THR) [0..<h] (replicate w 0, init_best)"

text \<open>
  The rectangle search of main.js lines 92-137: \<open>None\<close> is the early return at
  \<open>bestArea <= 0\<close>.
\<close>

definition findMaxRectangle :: "real list \<Rightarrow> nat \<Rightarrow> nat \<Rightarrow> real \<Rightarrow> bounds option" where
  "findMaxRectangle data w h THR =
     (let b = snd (scan_rows data w h THR)
      in if bestArea b \<le> 0 then None
         else Some \<lparr>rect_left = bestL b, rect_top = bestT b,
                    rect_right = bestR b, rect_bottom = bestB b\<rparr>)"

text \<open>The coordinate mapping of main.js lines 141-148, with the inset as a parameter.\<close>

definition toCropRegion :: "bounds \<Rightarrow> int \<Rightarrow> int \<Rightarrow> int \<Rightarrow> int \<Rightarrow> int \<Rightarrow> bounds option" where
  "toCropRegion rect offX offY inset width height =
     (let cropL = min width (max 0 (offX + rect_left rect + inset));
          cropR = min width (max 0 (offX + rect_right rect - inset));
          cropT = min height (max 0 (offY + rect_top rect + inset));
          cropB = min height (max 0 (offY + rect_bottom rect - inset))
      in if cropL < cropR \<and> cropT < cropB
         then Some \<lparr>rect_left = cropL, rect_top = cropT, rect_right = cropR, rect_bottom = cropB\<rparr>
         else None)"

text \<open>
  The callback given to \<open>executeAsModal\<close> in main.js, lines 47-150. The argument
  \<open>got\<close> is what \<open>imaging.getPixels\<close> resolved to; the result is the sequence of
  host calls that change something (\<open>dispose\<close>, \<open>doc.crop\<close>) and how the callback
  ended. \<open>new Int32Array(w)\<close> throws a \<open>RangeError\<close> for a negative \<open>w\<close>.
\<close>

definition runCrop :: "int \<Rightarrow> int \<Rightarrow> imageObj option \<Rightarrow> event list \<times> completion" where
  "runCrop width height got =
     (case got of
        None \<Rightarrow> ([], Returned)
      | Some imgObj \<Rightarrow>
          (case imageData imgObj of
             None \<Rightarrow> ([], Returned)
           | Some idata \<Rightarrow>
               if components idata \<noteq> 4 then ([Dispose], Returned)
               else
                 (case getData idata of
                    None \<Rightarrow> ([Dispose], Returned)
                  | Some data \<Rightarrow>
                      if length data = 0 then ([Dispose], Returned)
                      else
                        (let sb = (case sourceBounds imgObj of
                                     None \<Rightarrow> \<lparr>rect_left = 0, rect_top = 0,
                                               rect_right = width, rect_bottom = height\<rparr>
                                   | Some s \<Rightarrow> s);
                             offX = rect_left sb;
                             offY = rect_top sb;
                             w = rect_right sb - rect_left sb;
                             h = rect_bottom sb - rect_top sb;
                             THR = alphaThreshold (componentSize idata)
                         in if w < 0 then ([], RangeError)
                            else
                              (case findMaxRectangle data (nat w) (nat h) THR of
                                 None \<Rightarrow> ([Dispose], Returned)
                               | Some rect \<Rightarrow>
                                   (case toCropRegion rect offX offY INSET width height of
                                      None \<Rightarrow> ([], Returned)
                                    | Some region \<Rightarrow> ([Crop region], Returned)))))))"

section \<open>The row-profile variant\<close>

text \<open>
  The second source file holds another \<open>runCrop\<close>, whose rectangle search (lines 89-159)
  works on a row profile: the leftmost and the rightmost opaque pixel of every row.
  Its \<open>alphaThreshold\<close>, \<open>INSET\<close> and coordinate mapping are those of main.js. A
  \<open>for\<close> loop left by \<open>break\<close> at the first opaque pixel is \<open>find\<close>.
\<close>

definition first_opaque :: "real list \<Rightarrow> nat \<Rightarrow> real \<Rightarrow> nat \<Rightarrow> int" where
  "first_opaque data w THR y =
     (case find (\<lambda>x. opaque data w THR x y) [0..<w] of None \<Rightarrow> - 1 | Some x \<Rightarrow> int x)"

definition last_opaque :: "real list \<Rightarrow> nat \<Rightarrow> real \<Rightarrow> nat \<Rightarrow> int" where
  "last_opaque data w THR y =
     (case find (\<lambda>x. opaque data w THR x y) (rev [0..<w]) of None \<Rightarrow> - 1 | Some x \<Rightarrow> int x)"

text \<open>One iteration of the profile loop, lines 93-108.\<close>

definition profile_step :: "real list \<Rightarrow> nat \<Rightarrow> real \<Rightarrow> nat \<Rightarrow> int list \<times> int list \<Rightarrow> int list \<times> int list" where
  "profile_step data w THR y LR =
     (let l = first_opaque data w THR y
      in if l = - 1 then ((fst LR)[y := toInt32 (- 1)], (snd LR)[y := toInt32 (- 1)])
         else
           (let r = last_opaque data w THR y
            in ((fst LR)[y := toInt32 l], (snd LR)[y := toInt32 r])))"

definition row_profile :: "real list \<Rightarrow> nat \<Rightarrow> nat \<Rightarrow> real \<Rightarrow> int list \<times> int list" where
  "row_profile data w h THR =
     fold (profile_step data w THR) [0..<h] (replicate h 0, replicate h 0)"

text \<open>The row of maximum width, lines 111-117; the result is \<open>(y0, maxW)\<close>.\<close>

definition widest_row :: "int list \<Rightarrow> int list \<Rightarrow> nat \<Rightarrow> int \<times> int" where
  "widest_row L R h =
     fold (\<lambda>y ym.
             if L ! y \<ge> 0 then
               (let ww = R ! y - L ! y
                in if ww > snd ym then (int y, ww) else ym)
             else ym)
       [0..<h] (- 1, - 1)"

text \<open>
  The upward loop, lines 129-141, over the rows \<open>y0, y0 - 1, ..., 0\<close>, and the downward
  loop, lines 146-158, over the rows \<open>y0, ..., h - 1\<close>. Each \<open>break\<close> returns the best
  so far.
\<close>

fun up_loop :: "int list \<Rightarrow> int list \<Rightarrow> nat \<Rightarrow> nat list \<Rightarrow> int \<Rightarrow> int \<Rightarrow> best \<Rightarrow> best" where
  "up_loop L R y0 [] maxL minR b = b"
| "up_loop L R y0 (y # ys) maxL minR b =
     (if L ! y < 0 then b
      else
        (let maxL' = max maxL (L ! y);
             minR' = min minR (R ! y)
         in if maxL' \<ge> minR' then b
            else
              (let area = (int y0 - int y + 1) * (minR' - maxL')
               in up_loop L R y0 ys maxL' minR'
                    (if area > bestArea b
                     then \<lparr>bestArea = area, bestL = maxL', bestR = minR',
                           bestT = int y, bestB = int y0\<rparr>
                     else b))))"

fun down_loop :: "int list \<Rightarrow> int list \<Rightarrow> nat \<Rightarrow> nat list \<Rightarrow> int \<Rightarrow> int \<Rightarrow> best \<Rightarrow> best" where
  "down_loop L R y0 [] maxL minR b = b"
| "down_loop L R y0 (y # ys) maxL minR b =
     (if L ! y < 0 then b
      else
        (let maxL' = max maxL (L ! y);
             minR' = min minR (R ! y)
         in if maxL' \<ge> minR' then b
            else
              (let area = (int y - int y0 + 1) * (minR' - maxL')
               in down_loop L R y0 ys maxL' minR'
                    (if area > bestArea b
                     then \<lparr>bestArea = area, bestL = maxL', bestR = minR',
                           bestT = int y0, bestB = int y\<rparr>
                     else b))))"

text \<open>
  The rectangle search of the variant, lines 89-159: \<open>None\<close> is the early return at
  \<open>y0 < 0\<close>; there is no other.
\<close>

definition findRectangle_part_000 :: "real list \<Rightarrow> nat \<Rightarrow> nat \<Rightarrow> real \<Rightarrow> bounds option" where
  "findRectangle_part_000 data w h THR =
     (let LR = row_profile data w h THR;
          L = fst LR;
          R = snd LR;
          y0 = fst (widest_row L R h)
      in if y0 < 0 then None
         else
           (let b0 = \<lparr>bestArea = 0, bestL = L ! nat y0, bestR = R ! nat y0,
                      bestT = y0, bestB = y0\<rparr>;
                b1 = up_loop L R (nat y0) (rev [0..<Suc (nat y0)]) (L ! nat y0) (R ! nat y0) b0;
                b2 = down_loop L R (nat y0) [nat y0..<h] (L ! nat y0) (R ! nat y0) b1
            in Some \<lparr>rect_left = bestL b2, rect_top = bestT b2,
                      rect_right = bestR b2, rect_bottom = bestB b2\<rparr>))"

text \<open>
  The callback of the variant, lines 47-172: \<open>new Int32Array(h)\<close> throws for a negative
  \<open>h\<close>, and \<open>dispose\<close> is also called at the end, after the crop.
\<close>

definition runCrop_part_000 :: "int \<Rightarrow> int \<Rightarrow> imageObj option \<Rightarrow> event list \<times> completion" where
  "runCrop_part_000 width height got =
     (case got of
        None \<Rightarrow> ([], Returned)
      | Some imgObj \<Rightarrow>
          (case imageData imgObj of
             None \<Rightarrow> ([], Returned)
           | Some idata \<Rightarrow>
               if components idata \<noteq> 4 then ([Dispose], Returned)
               else
                 (case getData idata of
                    None \<Rightarrow> ([Dispose], Returned)
                  | Some data \<Rightarrow>
                      if length data = 0 then ([Dispose], Returned)
                      else
                        (let sb = (case sourceBounds imgObj of
                                     None \<Rightarrow> \<lparr>rect_left = 0, rect_top = 0,
                                               rect_right = width, rect_bottom = height\<rparr>
                                   | Some s \<Rightarrow> s);
                             offX = rect_left sb;
                             offY = rect_top sb;
                             w = rect_right sb - rect_left sb;
                             h = rect_bottom sb - rect_top sb;
                             THR = alphaThreshold (componentSize idata)
                         in if h < 0 then ([], RangeError)
                            else
                              (case findRectangle_part_000 data (nat w) (nat h) THR of
                                 None \<Rightarrow> ([Dispose], Returned)
                               | Some rect \<Rightarrow>
                                   (case toCropRegion rect offX offY INSET width height of
                                      None \<Rightarrow> ([Dispose], Returned)
                                    | Some region \<Rightarrow> ([Crop region, Dispose], Returned)))))))"

text \<open>Grids used at concrete inputs: an 8-bit RGBA buffer in which every alpha is 255.\<close>

definition opaque_buffer :: "nat \<Rightarrow> nat \<Rightarrow> real list" where
  "opaque_buffer w h = concat (replicate (w * h) [0, 0, 0, 255])"

definition host_image :: "real list \<Rightarrow> int \<Rightarrow> int \<Rightarrow> imageObj" where
  "host_image data w h =
     \<lparr>imageData = Some \<lparr>components = 4, componentSize = 8, getData = Some data\<rparr>,
      sourceBounds = Some \<lparr>rect_left = 0, rect_top = 0, rect_right = w, rect_bottom = h\<rparr>\<rparr>"

section \<open>The threshold policy\<close>

text \<open>
  C7: \<open>alphaThreshold\<close> is total: 256 for component size 16, 0.002 for 32, and 2 for
  every other component size, 8 included. It is a function of its argument only.
\<close>

theorem alphaThreshold_total:
  "alphaThreshold 16 = 256 \<and> alphaThreshold 32 = 0.002 \<and> alphaThreshold 8 = 2 \<and>
   (\<forall>c. c \<noteq> 16 \<and> c \<noteq> 32 \<longrightarrow> alphaThreshold c = 2)"
  by (simp add: alphaThreshold_def)

theorem alphaThreshold_total_witness:
  "(7::int) \<noteq> 16 \<and> (7::int) \<noteq> 32 \<and> alphaThreshold 7 = 2"
  using alphaThreshold_total by simp

section \<open>The coordinate mapper\<close>

text \<open>
  C4: the mapper clamps the four shifted and inset edges to the document (\<open>clamp v 0 d\<close>
  is \<open>min d (max 0 v)\<close>) and yields the region exactly when it is not empty. The
  rectangle 2..8 by 1..5 with no offset, inset 1 and a 10 by 10 document maps to
  3..7 by 2..4, and a rectangle no wider than twice the inset maps to no crop.
\<close>

theorem toCropRegion_spec:
  "(toCropRegion rect offX offY inset docW docH = Some region \<longleftrightarrow>
      region = \<lparr>rect_left = min docW (max 0 (offX + rect_left rect + inset)),
                rect_top = min docH (max 0 (offY + rect_top rect + inset)),
                rect_right = min docW (max 0 (offX + rect_right rect - inset)),
                rect_bottom = min docH (max 0 (offY + rect_bottom rect - inset))\<rparr> \<and>
      rect_left region < rect_right region \<and> rect_top region < rect_bottom region) \<and>
   (toCropRegion rect offX offY inset docW docH = None \<longleftrightarrow>
      \<not> (min docW (max 0 (offX + rect_left rect + inset))
           < min docW (max 0 (offX + rect_right rect - inset)) \<and>
         min docH (max 0 (offY + rect_top rect + inset))
           < min docH (max 0 (offY + rect_bottom rect - inset)))) \<and>
   toCropRegion \<lparr>rect_left = 2, rect_top = 1, rect_right = 8, rect_bottom = 5\<rparr> 0 0 1 10 10
     = Some \<lparr>rect_left = 3, rect_top = 2, rect_right = 7, rect_bottom = 4\<rparr> \<and>
   (rect_right rect - rect_left rect \<le> 2 * inset \<longrightarrow>
      toCropRegion rect offX offY inset docW docH = None)"
  by (auto simp add: toCropRegion_def Let_def)

theorem toCropRegion_spec_witness:
  "rect_right \<lparr>rect_left = 2, rect_top = 1, rect_right = 4, rect_bottom = 5\<rparr>
     - rect_left \<lparr>rect_left = 2, rect_top = 1, rect_right = 4, rect_bottom = 5\<rparr> \<le> 2 * (1::int) \<and>
   toCropRegion \<lparr>rect_left = 2, rect_top = 1, rect_right = 4, rect_bottom = 5\<rparr> 0 0 1 10 10 = None"
  using toCropRegion_spec [of "\<lparr>rect_left = 2, rect_top = 1, rect_right = 4, rect_bottom = 5\<rparr>" 0 0 1 10 10]
  by simp

end
